theory Spec2Isabelle
  imports Complex_Main
begin

section \<open>Strings and slices\<close>

text \<open>
  A Python \<open>str\<close> is a sequence of Unicode code points, and \<open>len\<close> counts code points.
  Code points are natural numbers here; \<open>py\<close> turns an ASCII literal into such a string.
\<close>

type_synonym pystr = "nat list"

type_synonym bytes = "nat list"

definition py :: "string \<Rightarrow> pystr" where
  "py s = map of_char s"

text \<open>
  Python slices \<open>xs[:k]\<close> and \<open>xs[k:]\<close>: a negative bound counts from the end, and every
  bound is clamped to the range of the sequence.
\<close>

definition slice_to :: "'a list \<Rightarrow> int \<Rightarrow> 'a list" where
  "slice_to xs k = (if k < 0 then take (nat (int (length xs) + k)) xs else take (nat k) xs)"

definition slice_from :: "'a list \<Rightarrow> int \<Rightarrow> 'a list" where
  "slice_from xs k = (if k < 0 then drop (nat (int (length xs) + k)) xs else drop (nat k) xs)"

section \<open>split\_into\_thread\<close>

definition RACE_HASHTAG :: pystr where
  "RACE_HASHTAG = py ''AustrianGP''"

definition hashtag_section :: pystr where
  "hashtag_section = py ''#f1 #formula1 #memes #'' @ RACE_HASHTAG"

text \<open>
  The \<open>while remaining_text\<close> loop. For a limit of 3 the loop never shortens the remaining
  text, so the loop is a partial function: \<open>None\<close> stands for a run that never returns.
\<close>

partial_function (option) split_loop :: "int \<Rightarrow> pystr \<Rightarrow> pystr list \<Rightarrow> pystr list option" where
  "split_loop limit remaining_text chunks =
     (if remaining_text = [] then Some chunks
      else if int (length remaining_text) \<le> limit then Some (chunks @ [remaining_text])
      else split_loop limit (slice_from remaining_text (limit - 3))
             (chunks @ [slice_to remaining_text (limit - 3) @ py ''...'']))"

definition first_post_limit :: "int \<Rightarrow> int" where
  "first_post_limit limit = limit - int (length hashtag_section) - 2"

definition split_into_thread :: "pystr \<Rightarrow> int \<Rightarrow> pystr list option" where
  "split_into_thread text limit =
     (if int (length text) \<le> first_post_limit limit then Some [text]
      else split_loop limit (slice_from text (first_post_limit limit))
             [slice_to text (first_post_limit limit)])"

text \<open>
  The payload of a list of chunks, as a reader of the thread recovers it: the first chunk as
  it is, every later chunk that is not the last one without its last three characters (the
  ellipsis marker), the last chunk as it is.
\<close>

fun strip_nonfinal :: "pystr list \<Rightarrow> pystr list" where
  "strip_nonfinal [] = []"
| "strip_nonfinal [c] = [c]"
| "strip_nonfinal (c # d # cs) = slice_to c (- 3) # strip_nonfinal (d # cs)"

fun payloads :: "pystr list \<Rightarrow> pystr list" where
  "payloads [] = []"
| "payloads (c # cs) = c # strip_nonfinal cs"

section \<open>Facts about slices and the segmentation loop\<close>

lemma slice_to_from_append: "slice_to xs k @ slice_from xs k = xs"
  by (simp add: slice_to_def slice_from_def)

lemma length_hashtag_section: "length hashtag_section = 32"
  by (simp add: hashtag_section_def RACE_HASHTAG_def py_def)

lemma first_post_limit_eq: "first_post_limit limit = limit - 34"
  by (simp add: first_post_limit_def length_hashtag_section)

lemma slice_to_marker: "slice_to (xs @ py ''...'') (- 3) = xs"
  by (simp add: slice_to_def py_def)

lemma strip_nonfinal_Cons_nonempty:
  "more \<noteq> [] \<Longrightarrow> strip_nonfinal (c # more) = slice_to c (- 3) # strip_nonfinal more"
  by (cases more) simp_all

lemma split_loop_rejoins:
  assumes "4 \<le> limit"
  shows "\<exists>more. split_loop limit remaining chunks = Some (chunks @ more)
               \<and> concat (strip_nonfinal more) = remaining
               \<and> (remaining \<noteq> [] \<longrightarrow> more \<noteq> [])"
proof (induction "length remaining" arbitrary: remaining chunks rule: less_induct)
  case less
  show ?case
  proof (cases "remaining = []")
    case True
    then show ?thesis by (subst split_loop.simps) simp
  next
    case nonempty: False
    show ?thesis
    proof (cases "int (length remaining) \<le> limit")
      case True
      with nonempty show ?thesis by (subst split_loop.simps) simp
    next
      case False
      define rest where "rest = slice_from remaining (limit - 3)"
      define piece where "piece = slice_to remaining (limit - 3)"
      from assms False have shorter: "length rest < length remaining" and rest_ne: "rest \<noteq> []"
        by (auto simp: rest_def slice_from_def)
      from less [OF shorter, of "chunks @ [piece @ py ''...'']"]
      obtain more where more: "split_loop limit rest (chunks @ [piece @ py ''...'']) =
            Some ((chunks @ [piece @ py ''...'']) @ more)"
          "concat (strip_nonfinal more) = rest" "more \<noteq> []"
        using rest_ne by blast
      have "split_loop limit remaining chunks = Some (chunks @ ((piece @ py ''...'') # more))"
        using nonempty False more(1) by (subst split_loop.simps) (simp add: rest_def piece_def)
      moreover have "concat (strip_nonfinal ((piece @ py ''...'') # more)) = remaining"
        using more(2,3)
        by (simp add: strip_nonfinal_Cons_nonempty slice_to_marker piece_def rest_def
            slice_to_from_append)
      ultimately show ?thesis by blast
    qed
  qed
qed

section \<open>Claims about split\_into\_thread\<close>

text \<open>
  C9. For every text whose length is at most the first-segment budget (the limit minus the
  length of the hashtag suffix minus the two separator characters), \<open>split_into_thread\<close>
  returns exactly one chunk, and that chunk is the text unchanged.
\<close>

theorem split_into_thread_short:
  "int (length text) \<le> limit - int (length hashtag_section) - 2 \<Longrightarrow>
   split_into_thread text limit = Some [text]"
  by (simp add: split_into_thread_def first_post_limit_def)

theorem split_into_thread_short_witness:
  "int (length (py ''Nice pass!'')) \<le> 300 - int (length hashtag_section) - 2
   \<and> split_into_thread (py ''Nice pass!'') 300 = Some [py ''Nice pass!'']"
  using split_into_thread_short [of "py ''Nice pass!''" 300]
  by (simp add: length_hashtag_section py_def)

text \<open>
  C6. For every text strictly longer than the first-segment budget, \<open>split_into_thread\<close>
  returns, and concatenating the payloads of its chunks (first chunk as it is, every later
  non-final chunk without its three-character marker, final chunk as it is) gives back
  exactly the text. The loop needs a limit of at least 4 to make progress; the program
  only ever uses the default limit 300.
\<close>

theorem split_into_thread_rejoin:
  "4 \<le> limit \<Longrightarrow> first_post_limit limit < int (length text) \<Longrightarrow>
   \<exists>chunks. split_into_thread text limit = Some chunks \<and> concat (payloads chunks) = text"
proof -
  assume limit: "4 \<le> limit" and long: "first_post_limit limit < int (length text)"
  obtain more where more:
    "split_loop limit (slice_from text (first_post_limit limit))
       [slice_to text (first_post_limit limit)] = Some ([slice_to text (first_post_limit limit)] @ more)"
    "concat (strip_nonfinal more) = slice_from text (first_post_limit limit)"
    using split_loop_rejoins [OF limit] by blast
  from long more(1) have "split_into_thread text limit = Some (slice_to text (first_post_limit limit) # more)"
    by (simp add: split_into_thread_def)
  moreover have "concat (payloads (slice_to text (first_post_limit limit) # more)) = text"
    by (simp add: more(2) slice_to_from_append)
  ultimately show ?thesis by blast
qed

theorem split_into_thread_rejoin_witness:
  "(4::int) \<le> 300 \<and> first_post_limit 300 < int (length (replicate 900 (120::nat)))
   \<and> (\<exists>chunks. split_into_thread (replicate 900 120) 300 = Some chunks
         \<and> concat (payloads chunks) = replicate 900 120)"
  using split_into_thread_rejoin [of 300 "replicate 900 120"]
  by (simp add: first_post_limit_eq)

section \<open>UTF-8 and hashtag facets\<close>

text \<open>
  Exceptions of the Python run time and of the libraries that the modelled functions can
  raise. A function that can raise returns a sum, with the exception on the left.
\<close>

datatype exn =
    UnicodeEncodeError | UnicodeDecodeError | FileNotFoundError | UnidentifiedImageError
  | OSError | ValueError | ZeroDivisionError | ClientError

text \<open>
  \<open>str.encode("utf-8")\<close>: one to four bytes per code point. A lone surrogate
  (U+D800 to U+DFFF) cannot be encoded and raises \<open>UnicodeEncodeError\<close>; a Python string holds
  no code point above U+10FFFF.
\<close>

definition utf8_encode_cp :: "nat \<Rightarrow> bytes option" where
  "utf8_encode_cp c =
     (if c < 0x80 then Some [c]
      else if c < 0x800 then Some [0xC0 + c div 64, 0x80 + c mod 64]
      else if 0xD800 \<le> c \<and> c \<le> 0xDFFF then None
      else if c < 0x10000 then
        Some [0xE0 + c div 4096, 0x80 + c div 64 mod 64, 0x80 + c mod 64]
      else if c < 0x110000 then
        Some [0xF0 + c div 262144, 0x80 + c div 4096 mod 64, 0x80 + c div 64 mod 64,
              0x80 + c mod 64]
      else None)"

fun utf8_encode :: "pystr \<Rightarrow> exn + bytes" where
  "utf8_encode [] = Inr []"
| "utf8_encode (c # cs) =
     (case utf8_encode_cp c of
        None \<Rightarrow> Inl UnicodeEncodeError
      | Some bs \<Rightarrow> (case utf8_encode cs of Inl e \<Rightarrow> Inl e | Inr more \<Rightarrow> Inr (bs @ more)))"

text \<open>
  \<open>bytes.decode("utf-8")\<close>, strict: overlong forms, surrogates, values above U+10FFFF and
  truncated sequences raise \<open>UnicodeDecodeError\<close>.
\<close>

definition is_cont :: "nat \<Rightarrow> bool" where
  "is_cont b \<longleftrightarrow> 0x80 \<le> b \<and> b < 0xC0"

fun utf8_decode_one :: "bytes \<Rightarrow> (nat \<times> bytes) option" where
  "utf8_decode_one [] = None"
| "utf8_decode_one (b0 # bs) =
     (if b0 < 0x80 then Some (b0, bs)
      else if b0 < 0xC2 then None
      else if b0 < 0xE0 then
        (case bs of
           b1 # r \<Rightarrow>
             if is_cont b1 then Some ((b0 - 0xC0) * 64 + (b1 - 0x80), r) else None
         | _ \<Rightarrow> None)
      else if b0 < 0xF0 then
        (case bs of
           b1 # b2 # r \<Rightarrow>
             (let c = (b0 - 0xE0) * 4096 + (b1 - 0x80) * 64 + (b2 - 0x80)
              in if is_cont b1 \<and> is_cont b2 \<and> 0x800 \<le> c \<and> \<not> (0xD800 \<le> c \<and> c \<le> 0xDFFF)
                 then Some (c, r) else None)
         | _ \<Rightarrow> None)
      else if b0 < 0xF5 then
        (case bs of
           b1 # b2 # b3 # r \<Rightarrow>
             (let c = (b0 - 0xF0) * 262144 + (b1 - 0x80) * 4096 + (b2 - 0x80) * 64 + (b3 - 0x80)
              in if is_cont b1 \<and> is_cont b2 \<and> is_cont b3 \<and> 0x10000 \<le> c \<and> c < 0x110000
                 then Some (c, r) else None)
         | _ \<Rightarrow> None)
      else None)"

lemma utf8_decode_one_shorter:
  assumes dec: "utf8_decode_one bs = Some (c, r)"
  shows "length r < length bs"
proof (cases bs)
  case Nil
  with dec show ?thesis by simp
next
  case (Cons b0 rest)
  have "\<exists>pre. rest = pre @ r"
  proof (cases rest)
    case Nil
    with dec Cons show ?thesis by (simp split: if_splits)
  next
    case c1: (Cons b1 r1)
    show ?thesis
    proof (cases r1)
      case Nil
      with dec Cons c1 show ?thesis by (simp split: if_splits)
    next
      case c2: (Cons b2 r2)
      show ?thesis
      proof (cases r2)
        case Nil
        with dec Cons c1 c2 show ?thesis by (simp split: if_splits add: Let_def)
      next
        case c3: (Cons b3 r3)
        with dec Cons c1 c2 show ?thesis by (simp split: if_splits add: Let_def)
      qed
    qed
  qed
  with Cons show ?thesis by auto
qed

function utf8_decode :: "bytes \<Rightarrow> exn + pystr" where
  "utf8_decode bs =
     (if bs = [] then Inr []
      else case utf8_decode_one bs of
             None \<Rightarrow> Inl UnicodeDecodeError
           | Some (c, r) \<Rightarrow> (case utf8_decode r of Inl e \<Rightarrow> Inl e | Inr cs \<Rightarrow> Inr (c # cs)))"
  by pat_completeness auto
termination
  by (relation "measure length") (auto dest: utf8_decode_one_shorter)

declare utf8_decode.simps [simp del]

lemma div_mod_scaled: "q div k * (k * m) + q mod k * m = q * (m::nat)"
proof -
  have "q div k * (k * m) + q mod k * m = (q div k * k + q mod k) * m"
    by (simp only: add_mult_distrib mult.assoc)
  also have "\<dots> = q * m" by simp
  finally show ?thesis .
qed

lemma split3: "(c::nat) div 4096 * 4096 + c div 64 mod 64 * 64 + c mod 64 = c"
proof -
  have a: "c div 4096 = c div 64 div 64"
    using div_mult2_eq [of c 64 64] by simp
  have "c div 64 div 64 * 4096 + c div 64 mod 64 * 64 = c div 64 * 64"
    using div_mod_scaled [of "c div 64" 64 64] by simp
  then show ?thesis by (simp add: a)
qed

lemma split4:
  "(c::nat) div 262144 * 262144 + c div 4096 mod 64 * 4096 + c div 64 mod 64 * 64 + c mod 64 = c"
proof -
  have a: "c div 262144 = c div 4096 div 64"
    using div_mult2_eq [of c 4096 64] by simp
  have "c div 4096 div 64 * 262144 + c div 4096 mod 64 * 4096 = c div 4096 * 4096"
    using div_mod_scaled [of "c div 4096" 64 4096] by simp
  then have "c div 262144 * 262144 + c div 4096 mod 64 * 4096 = c div 4096 * 4096"
    by (simp add: a)
  then show ?thesis using split3 [of c] by simp
qed

lemma utf8_decode_one_encode_cp:
  "utf8_encode_cp c = Some bs \<Longrightarrow> utf8_decode_one (bs @ more) = Some (c, more)"
proof -
  assume enc: "utf8_encode_cp c = Some bs"
  consider (one) "c < 0x80" | (two) "0x80 \<le> c" "c < 0x800"
    | (three) "0x800 \<le> c" "c < 0x10000" "\<not> (0xD800 \<le> c \<and> c \<le> 0xDFFF)"
    | (four) "0x10000 \<le> c" "c < 0x110000"
    using enc by (auto simp: utf8_encode_cp_def split: if_splits)
  then show ?thesis
  proof cases
    case one
    with enc show ?thesis by (auto simp: utf8_encode_cp_def)
  next
    case two
    then have "bs = [0xC0 + c div 64, 0x80 + c mod 64]"
      using enc by (auto simp: utf8_encode_cp_def)
    moreover have "2 \<le> c div 64" "c div 64 < 32"
      using two by (simp_all add: less_mult_imp_div_less less_eq_div_iff_mult_less_eq)
    ultimately show ?thesis by (simp add: is_cont_def)
  next
    case three
    then have bs: "bs = [0xE0 + c div 4096, 0x80 + c div 64 mod 64, 0x80 + c mod 64]"
      using enc by (auto simp: utf8_encode_cp_def)
    have "c div 4096 < 16" using three by (simp add: less_mult_imp_div_less)
    then show ?thesis using three by (simp add: bs is_cont_def Let_def split3)
  next
    case four
    then have bs: "bs = [0xF0 + c div 262144, 0x80 + c div 4096 mod 64, 0x80 + c div 64 mod 64,
              0x80 + c mod 64]"
      using enc by (auto simp: utf8_encode_cp_def)
    have "c div 262144 < 5" using four by (simp add: less_mult_imp_div_less)
    then show ?thesis using four by (simp add: bs is_cont_def Let_def split4)
  qed
qed

lemma utf8_encode_cp_nonempty: "utf8_encode_cp c = Some bs \<Longrightarrow> bs \<noteq> []"
  by (auto simp: utf8_encode_cp_def split: if_splits)

lemma utf8_decode_encode: "utf8_encode s = Inr bs \<Longrightarrow> utf8_decode bs = Inr s"
proof (induction s arbitrary: bs)
  case Nil
  then show ?case by (simp add: utf8_decode.simps)
next
  case (Cons c cs)
  then obtain b more where b: "utf8_encode_cp c = Some b" "utf8_encode cs = Inr more" "bs = b @ more"
    by (auto split: option.splits sum.splits)
  with Cons.IH have "utf8_decode more = Inr cs" by simp
  with b utf8_encode_cp_nonempty [OF b(1)] show ?case
    by (subst utf8_decode.simps) (simp add: utf8_decode_one_encode_cp)
qed


text \<open>The slice \<open>xs[a:b]\<close> for non-negative bounds.\<close>

definition slice_range :: "'a list \<Rightarrow> nat \<Rightarrow> nat \<Rightarrow> 'a list" where
  "slice_range xs a b = take (b - a) (drop a xs)"

text \<open>\<open>str.find\<close>: the lowest index at which the substring occurs, or \<open>-1\<close>.\<close>

fun find_from :: "pystr \<Rightarrow> pystr \<Rightarrow> nat \<Rightarrow> int" where
  "find_from [] sub i = (if sub = [] then int i else - 1)"
| "find_from (x # xs) sub i =
     (if take (length sub) (x # xs) = sub then int i else find_from xs sub (Suc i))"

definition str_find :: "pystr \<Rightarrow> pystr \<Rightarrow> int" where
  "str_find s sub = find_from s sub 0"

text \<open>
  A facet is the dictionary \<open>{"index": {"byteStart", "byteEnd"}, "features": [{"$type", "tag"}]}\<close>.
\<close>

record facet_index =
  byteStart :: nat
  byteEnd :: nat

record feature =
  ftype :: pystr
  tag :: pystr

record facet =
  index :: facet_index
  features :: "feature list"

text \<open>The loop of \<open>create_hashtag_facets\<close> over the four tags, appending to \<open>facets\<close>.\<close>

fun facet_loop :: "pystr \<Rightarrow> pystr list \<Rightarrow> facet list \<Rightarrow> exn + facet list" where
  "facet_loop formatted_text [] facets = Inr facets"
| "facet_loop formatted_text (tg # tags) facets =
     (let tag_with_hash = py ''#'' @ tg;
          tag_pos = str_find formatted_text tag_with_hash
      in if tag_pos \<noteq> - 1 then
           (case utf8_encode (slice_to formatted_text tag_pos) of
              Inl e \<Rightarrow> Inl e
            | Inr start_bytes \<Rightarrow>
                (case utf8_encode (slice_to formatted_text (tag_pos + int (length tag_with_hash))) of
                   Inl e \<Rightarrow> Inl e
                 | Inr end_bytes \<Rightarrow>
                     facet_loop formatted_text tags
                       (facets @
                        [\<lparr>index = \<lparr>byteStart = length start_bytes, byteEnd = length end_bytes\<rparr>,
                          features = [\<lparr>ftype = py ''app.bsky.richtext.facet#tag'', tag = tg\<rparr>]\<rparr>])))
         else facet_loop formatted_text tags facets)"

definition create_hashtag_facets :: "pystr \<Rightarrow> exn + facet list" where
  "create_hashtag_facets formatted_text =
     (case utf8_encode formatted_text of
        Inl e \<Rightarrow> Inl e
      | Inr text_bytes \<Rightarrow>
          facet_loop formatted_text [py ''f1'', py ''formula1'', py ''memes'', RACE_HASHTAG] [])"

text \<open>
  A facet selects its hashtag in the encoded text when decoding the bytes in
  \<open>[byteStart, byteEnd)\<close> gives \<open>#\<close> followed by the tag of its single feature.
\<close>

definition facet_selects :: "bytes \<Rightarrow> facet \<Rightarrow> bool" where
  "facet_selects text_bytes f \<longleftrightarrow>
     (case features f of
        [ft] \<Rightarrow> utf8_decode (slice_range text_bytes (byteStart (index f)) (byteEnd (index f)))
                 = Inr (py ''#'' @ tag ft)
      | _ \<Rightarrow> False)"

lemma utf8_encode_append:
  "utf8_encode (xs @ ys) =
     (case utf8_encode xs of
        Inl e \<Rightarrow> Inl e
      | Inr a \<Rightarrow> (case utf8_encode ys of Inl e \<Rightarrow> Inl e | Inr b \<Rightarrow> Inr (a @ b)))"
  by (induction xs) (auto split: option.splits sum.splits)

lemma find_from_found:
  "find_from s sub i = p \<Longrightarrow> p \<noteq> - 1 \<Longrightarrow>
   int i \<le> p \<and> nat p - i \<le> length s \<and> take (length sub) (drop (nat p - i) s) = sub"
proof (induction s arbitrary: i)
  case Nil
  then show ?case by (auto split: if_splits)
next
  case (Cons x xs)
  show ?case
  proof (cases "take (length sub) (x # xs) = sub")
    case True
    with Cons.prems show ?thesis by auto
  next
    case False
    with Cons.prems have "find_from xs sub (Suc i) = p" by simp
    from Cons.IH [OF this Cons.prems(2)]
    have le: "int (Suc i) \<le> p" and tk: "take (length sub) (drop (nat p - Suc i) xs) = sub"
      and bound: "nat p - Suc i \<le> length xs"
      by auto
    from le have "nat p - i = Suc (nat p - Suc i)" by linarith
    with tk le bound show ?thesis by simp
  qed
qed

lemma str_find_found:
  assumes "str_find s sub = p" "p \<noteq> - 1"
  shows "0 \<le> p" and "nat p \<le> length s"
    and "s = take (nat p) s @ sub @ drop (nat p + length sub) s"
proof -
  from find_from_found [OF assms [unfolded str_find_def]]
  have p: "0 \<le> p" and bound: "nat p \<le> length s"
    and tk: "take (length sub) (drop (nat p) s) = sub" by auto
  show "0 \<le> p" and "nat p \<le> length s" by fact+
  have "drop (nat p) s = take (length sub) (drop (nat p) s) @ drop (length sub) (drop (nat p) s)"
    by (simp only: append_take_drop_id)
  then have "drop (nat p) s = sub @ drop (nat p + length sub) s"
    by (simp only: tk drop_drop add.commute)
  then show "s = take (nat p) s @ sub @ drop (nat p + length sub) s"
    by (metis append_take_drop_id)
qed

lemma facet_selects_found:
  assumes enc: "utf8_encode s = Inr text_bytes"
    and pos: "str_find s (py ''#'' @ tg) = p" "p \<noteq> - 1"
    and sb: "utf8_encode (slice_to s p) = Inr start_bytes"
    and eb: "utf8_encode (slice_to s (p + int (length (py ''#'' @ tg)))) = Inr end_bytes"
  shows "facet_selects text_bytes
           \<lparr>index = \<lparr>byteStart = length start_bytes, byteEnd = length end_bytes\<rparr>,
            features = [\<lparr>ftype = ty, tag = tg\<rparr>]\<rparr>"
proof -
  define sub where "sub = py ''#'' @ tg"
  define pre where "pre = take (nat p) s"
  define post where "post = drop (nat p + length sub) s"
  from str_find_found [OF pos] have p: "0 \<le> p" and bound: "nat p \<le> length s"
    and s: "s = pre @ sub @ post"
    by (simp_all add: sub_def pre_def post_def)
  have len_pre: "length pre = nat p"
    using bound by (simp add: pre_def)
  have st: "slice_to s p = pre" using p by (simp add: slice_to_def pre_def)
  have "slice_to s (p + int (length sub)) = take (nat p + length sub) s"
    using p by (simp add: slice_to_def nat_add_distrib)
  also have "\<dots> = pre @ sub" using len_pre by (subst s) simp
  finally have en: "slice_to s (p + int (length sub)) = pre @ sub" .
  from enc s obtain a b c where abc: "utf8_encode pre = Inr a" "utf8_encode sub = Inr b"
      "utf8_encode post = Inr c" "text_bytes = a @ b @ c"
    by (auto simp: utf8_encode_append split: sum.splits)
  from sb st abc have a: "start_bytes = a" by simp
  from eb en abc have e: "end_bytes = a @ b" by (simp add: sub_def utf8_encode_append)
  have "slice_range text_bytes (length start_bytes) (length end_bytes) = b"
    by (simp add: slice_range_def a e abc(4))
  with utf8_decode_encode [OF abc(2)] show ?thesis
    by (simp add: facet_selects_def sub_def)
qed

lemma facet_loop_selects:
  "utf8_encode s = Inr text_bytes \<Longrightarrow> facet_loop s tags acc = Inr facets \<Longrightarrow>
   \<forall>f \<in> set acc. facet_selects text_bytes f \<Longrightarrow> \<forall>f \<in> set facets. facet_selects text_bytes f"
proof (induction tags arbitrary: acc)
  case Nil
  then show ?case by simp
next
  case (Cons tg tags)
  show ?case
  proof (cases "str_find s (py ''#'' @ tg) = - 1")
    case True
    with Cons.prems(2) have "facet_loop s tags acc = Inr facets" by simp
    from Cons.IH [OF Cons.prems(1) this Cons.prems(3)] show ?thesis .
  next
    case False
    with Cons.prems(2) obtain sb eb where
      sb: "utf8_encode (slice_to s (str_find s (py ''#'' @ tg))) = Inr sb" and
      eb: "utf8_encode (slice_to s (str_find s (py ''#'' @ tg) + int (length (py ''#'' @ tg)))) = Inr eb" and
      rec: "facet_loop s tags
             (acc @ [\<lparr>index = \<lparr>byteStart = length sb, byteEnd = length eb\<rparr>,
                      features = [\<lparr>ftype = py ''app.bsky.richtext.facet#tag'', tag = tg\<rparr>]\<rparr>]) = Inr facets"
      by (auto simp: Let_def split: sum.splits)
    have "facet_selects text_bytes \<lparr>index = \<lparr>byteStart = length sb, byteEnd = length eb\<rparr>,
                      features = [\<lparr>ftype = py ''app.bsky.richtext.facet#tag'', tag = tg\<rparr>]\<rparr>"
      by (rule facet_selects_found [OF Cons.prems(1) refl False sb eb])
    with Cons.prems(3) have "\<forall>f \<in> set (acc @ [\<lparr>index = \<lparr>byteStart = length sb, byteEnd = length eb\<rparr>,
                      features = [\<lparr>ftype = py ''app.bsky.richtext.facet#tag'', tag = tg\<rparr>]\<rparr>]). facet_selects text_bytes f"
      by simp
    from Cons.IH [OF Cons.prems(1) rec this] show ?thesis .
  qed
qed

text \<open>
  C7. For every facet that \<open>create_hashtag_facets\<close> produces over a formatted text, decoding
  the bytes \<open>[byteStart, byteEnd)\<close> of the UTF-8 encoding of the text gives exactly the hashtag
  \<open>#tag\<close>, whatever characters (multibyte ones included) come before it.
\<close>

theorem facet_range_selects_hashtag:
  "create_hashtag_facets formatted_text = Inr facets \<Longrightarrow> f \<in> set facets \<Longrightarrow>
   \<exists>text_bytes ft. utf8_encode formatted_text = Inr text_bytes \<and> features f = [ft] \<and>
     utf8_decode (slice_range text_bytes (byteStart (index f)) (byteEnd (index f)))
       = Inr (py ''#'' @ tag ft)"
proof -
  assume cf: "create_hashtag_facets formatted_text = Inr facets" and f: "f \<in> set facets"
  from cf obtain text_bytes where tb: "utf8_encode formatted_text = Inr text_bytes"
    and lp: "facet_loop formatted_text [py ''f1'', py ''formula1'', py ''memes'', RACE_HASHTAG] [] = Inr facets"
    by (auto simp: create_hashtag_facets_def split: sum.splits)
  from facet_loop_selects [OF tb lp] f have "facet_selects text_bytes f" by simp
  with tb show ?thesis
    by (auto simp: facet_selects_def split: list.splits)
qed

text \<open>A formatted text with two-, three- and four-byte characters before the hashtags.\<close>

definition sample_text :: pystr where
  "sample_text = [34, 233, 8364, 128512, 34, 10, 10] @ py ''- u/alice'' @ [10, 10] @ hashtag_section"

lemma sample_encode:
  "utf8_encode sample_text = Inr [34, 195, 169, 226, 130, 172, 240, 159, 152, 128, 34, 10, 10,
     45, 32, 117, 47, 97, 108, 105, 99, 101, 10, 10,
     35, 102, 49, 32, 35, 102, 111, 114, 109, 117, 108, 97, 49, 32, 35, 109, 101, 109, 101, 115, 32,
     35, 65, 117, 115, 116, 114, 105, 97, 110, 71, 80]"
  by (simp add: sample_text_def hashtag_section_def RACE_HASHTAG_def py_def utf8_encode_cp_def)

lemma sample_facets:
  "create_hashtag_facets sample_text = Inr
     [\<lparr>index = \<lparr>byteStart = 24, byteEnd = 27\<rparr>,
       features = [\<lparr>ftype = py ''app.bsky.richtext.facet#tag'', tag = py ''f1''\<rparr>]\<rparr>,
      \<lparr>index = \<lparr>byteStart = 28, byteEnd = 37\<rparr>,
       features = [\<lparr>ftype = py ''app.bsky.richtext.facet#tag'', tag = py ''formula1''\<rparr>]\<rparr>,
      \<lparr>index = \<lparr>byteStart = 38, byteEnd = 44\<rparr>,
       features = [\<lparr>ftype = py ''app.bsky.richtext.facet#tag'', tag = py ''memes''\<rparr>]\<rparr>,
      \<lparr>index = \<lparr>byteStart = 45, byteEnd = 56\<rparr>,
       features = [\<lparr>ftype = py ''app.bsky.richtext.facet#tag'', tag = RACE_HASHTAG\<rparr>]\<rparr>]"
  by (simp add: create_hashtag_facets_def sample_encode)
     (simp add: sample_text_def hashtag_section_def RACE_HASHTAG_def py_def utf8_encode_cp_def
        str_find_def slice_to_def)

theorem facet_range_selects_hashtag_witness:
  "\<exists>text_bytes ft. utf8_encode sample_text = Inr text_bytes
      \<and> features \<lparr>index = \<lparr>byteStart = 45, byteEnd = 56\<rparr>,
           features = [\<lparr>ftype = py ''app.bsky.richtext.facet#tag'', tag = RACE_HASHTAG\<rparr>]\<rparr> = [ft]
      \<and> utf8_decode (slice_range text_bytes 45 56) = Inr (py ''#'' @ tag ft)"
  using facet_range_selects_hashtag [OF sample_facets,
      of "\<lparr>index = \<lparr>byteStart = 45, byteEnd = 56\<rparr>,
           features = [\<lparr>ftype = py ''app.bsky.richtext.facet#tag'', tag = RACE_HASHTAG\<rparr>]\<rparr>"]
  by simp

section \<open>The world: files, network calls, posts\<close>

text \<open>
  Functions with effects take the world and return it changed. The world holds the files
  (a map from path to content) and the trace of the calls made to the outside: HTTP requests,
  sleeps, and the calls to the Bluesky client. What the outside answers is a parameter of
  the model; an answer may depend on the number of calls made so far.
\<close>

type_synonym path = pystr

type_synonym filesystem = "path \<Rightarrow> bytes option"

type_synonym blob = pystr

record strong_ref =
  uri :: pystr
  cid :: pystr

record reply_ref =
  root_ref :: strong_ref
  parent_ref :: strong_ref

record image_item =
  item_image :: blob
  item_alt :: pystr

record send_post_call =
  sp_text :: pystr
  sp_facets :: "facet list option"
  sp_embed :: "image_item list"
  sp_reply_to :: "reply_ref option"

text \<open>
  The arguments of \<open>bluesky.send_post\<close> and \<open>bluesky.send_video\<close> as the client receives
  them. \<open>create_bluesky_thread\<close> passes no \<open>reply_to\<close> to \<open>send_video\<close>, so the client's
  default \<open>None\<close> applies there.
\<close>

record send_video_call =
  sv_text :: pystr
  sv_video :: bytes
  sv_video_alt :: pystr
  sv_facets :: "facet list option"
  sv_reply_to :: "reply_ref option"

datatype event =
    HttpGet "pystr option"
  | Sleep nat
  | UploadBlob bytes
  | SendPost send_post_call
  | SendVideo send_video_call

record world =
  fs :: filesystem
  trace :: "event list"

section \<open>download\_media\<close>

text \<open>
  \<open>requests.get\<close> either returns a response (status and body) or raises a
  \<open>RequestException\<close> (always so for the URL \<open>None\<close>); \<open>raise_for_status\<close> raises \<open>HTTPError\<close> for a status from 400 to 599.
  Writing the file can raise \<open>IOError\<close>. Every \<open>except\<close> clause of the loop body logs and
  falls through to the end of the body, so the \<open>for\<close> loop goes on to the next attempt;
  only the two \<open>return\<close> statements in the \<open>try\<close> block leave it early.
\<close>

datatype http_result = Response nat bytes | RequestFailed

record web =
  http_get :: "nat \<Rightarrow> pystr option \<Rightarrow> http_result"
  can_write :: "path \<Rightarrow> bool"

definition max_retries :: nat where
  "max_retries = 3"

definition retry_delay :: nat where
  "retry_delay = 5"

definition log_event :: "event \<Rightarrow> world \<Rightarrow> world" where
  "log_event e w = w\<lparr>trace := trace w @ [e]\<rparr>"

fun download_loop :: "web \<Rightarrow> pystr option \<Rightarrow> path \<Rightarrow> nat list \<Rightarrow> world \<Rightarrow> bool \<times> world" where
  "download_loop net url filename [] w = (False, w)"
| "download_loop net url filename (attempt # later) w =
     (let w1 = log_event (HttpGet url) w in
      case (if url = None then RequestFailed else http_get net (length (trace w)) url) of
        RequestFailed \<Rightarrow> download_loop net url filename later w1
      | Response status content \<Rightarrow>
          if 400 \<le> status \<and> status < 600 then
            (if status = 429 \<and> attempt < max_retries - 1
             then download_loop net url filename later (log_event (Sleep retry_delay) w1)
             else download_loop net url filename later w1)
          else if status = 200 then
            (if can_write net filename then
               (let w2 = w1\<lparr>fs := (fs w1)(filename \<mapsto> content)\<rparr> in
                (case fs w2 filename of Some b \<Rightarrow> 0 < length b | None \<Rightarrow> False, w2))
             else download_loop net url filename later w1)
          else (False, w1))"

definition download_media :: "web \<Rightarrow> pystr option \<Rightarrow> path \<Rightarrow> world \<Rightarrow> bool \<times> world" where
  "download_media net url filename w = download_loop net url filename [0..<max_retries] w"

definition not_found_site :: web where
  "not_found_site = \<lparr>http_get = (\<lambda>n u. Response 404 []), can_write = (\<lambda>p. True)\<rparr>"

definition empty_world :: world where
  "empty_world = \<lparr>fs = Map.empty, trace = []\<rparr>"

lemma upt3: "[0..<max_retries] = [0, 1, 2]"
  by (simp add: max_retries_def upt_rec)

text \<open>
  C4. \<open>download_media\<close> makes at most 3 attempts, and only a 429 answer is meant to be
  retried (after 5 seconds). The code retries every failed attempt: a server that answers
  404 receives three requests in a row, with no sleep in between.
\<close>

theorem download_media_retries_404:
  "download_media not_found_site (Some (py ''https://i.redd.it/x.png'')) (py ''temp_x_0.png'') empty_world
     = (False, empty_world\<lparr>trace :=
          [HttpGet (Some (py ''https://i.redd.it/x.png'')),
           HttpGet (Some (py ''https://i.redd.it/x.png'')),
           HttpGet (Some (py ''https://i.redd.it/x.png''))]\<rparr>)"
  by (simp add: download_media_def upt3 not_found_site_def empty_world_def log_event_def)

section \<open>compress\_image\<close>

text \<open>
  An opened Pillow image has a mode and a size; its pixels are opaque here. What
  \<open>compress_image\<close> calls is a parameter of the model: opening (which fails on bytes that are
  no image), converting the mode, resizing and saving as JPEG (both can raise), and the
  final \<open>open(image_path, "wb")\<close> with its \<open>write\<close>. That write succeeds, or \<open>open\<close> raises
  and the file stays as it was, or \<open>open\<close> has truncated the file and \<open>write\<close> raises, which
  leaves a part of the data.
\<close>

record image =
  im_mode :: pystr
  im_size :: "nat \<times> nat"
  im_data :: bytes

datatype write_result = Written | Refused | Torn bytes

record pil =
  image_open :: "bytes \<Rightarrow> image option"
  convert :: "image \<Rightarrow> pystr \<Rightarrow> image"
  resize :: "image \<Rightarrow> nat \<times> nat \<Rightarrow> exn + image"
  save_jpeg :: "image \<Rightarrow> int \<Rightarrow> exn + bytes"
  write_file :: "path \<Rightarrow> bytes \<Rightarrow> write_result"

text \<open>
  \<open>tuple(int(dim * scale) for dim in img.size)\<close>. The scale only takes the values
  \<open>(3/4)^k\<close>, which binary floating point represents exactly, so rationals compute what
  the floats do; the same holds for the comparisons with \<open>1.0\<close> and \<open>0.3\<close>.
\<close>

definition scaled_size :: "nat \<times> nat \<Rightarrow> rat \<Rightarrow> nat \<times> nat" where
  "scaled_size sz scale = (nat \<lfloor>of_nat (fst sz) * scale\<rfloor>, nat \<lfloor>of_nat (snd sz) * scale\<rfloor>)"

lemma ceiling_shrinks:
  fixes s :: rat
  assumes "\<not> 5 * s < 2"
  shows "\<lceil>15 * s / 2\<rceil> < \<lceil>10 * s\<rceil>"
proof -
  from assms have "15 * s / 2 \<le> 10 * s - 1" by simp
  then have "\<lceil>15 * s / 2\<rceil> \<le> \<lceil>10 * s - 1\<rceil>" by (rule ceiling_mono)
  also have "\<dots> = \<lceil>10 * s\<rceil> - 1" by simp
  finally show ?thesis by simp
qed

text \<open>
  The \<open>while True\<close> loop: encode, stop when the result fits, otherwise lower the quality
  by 5 down to 20, then shrink by 3/4, and stop without another encoding once the scale is
  under 0.3.
\<close>

function compress_loop :: "pil \<Rightarrow> image \<Rightarrow> nat \<Rightarrow> int \<Rightarrow> rat \<Rightarrow> exn + bytes" where
  "compress_loop lib img budget quality scale =
     (case (if scale < 1 then resize lib img (scaled_size (im_size img) scale) else Inr img) of
        Inl e \<Rightarrow> Inl e
      | Inr resized_img \<Rightarrow>
          (case save_jpeg lib resized_img quality of
             Inl e \<Rightarrow> Inl e
           | Inr img_byte_arr \<Rightarrow>
               if length img_byte_arr \<le> budget then Inr img_byte_arr
               else if (if 20 < quality then scale else scale * (3 / 4)) < 3 / 10
               then Inr img_byte_arr
               else compress_loop lib img budget
                      (if 20 < quality then quality - 5 else quality)
                      (if 20 < quality then scale else scale * (3 / 4))))"
  by pat_completeness auto
termination
  by (relation "measure (\<lambda>(lib, img, budget, quality, scale). nat (quality - 20) + nat \<lceil>10 * scale\<rceil>)")
     (auto simp: ceiling_shrinks)

declare compress_loop.simps [simp del]

text \<open>
  \<open>if img.mode in ("RGBA", "P"): img = img.convert("RGB")\<close>: no other mode is converted.
\<close>

definition normalize_mode :: "pil \<Rightarrow> image \<Rightarrow> image" where
  "normalize_mode lib opened =
     (if im_mode opened \<in> set [py ''RGBA'', py ''P''] then convert lib opened (py ''RGB'')
      else opened)"

definition compress_image :: "pil \<Rightarrow> path \<Rightarrow> nat \<Rightarrow> world \<Rightarrow> (exn + bool) \<times> world" where
  "compress_image lib image_path max_size_kb w =
     (case fs w image_path of
        None \<Rightarrow> (Inl FileNotFoundError, w)
      | Some raw \<Rightarrow>
          (case image_open lib raw of
             None \<Rightarrow> (Inl UnidentifiedImageError, w)
           | Some opened \<Rightarrow>
               (case compress_loop lib (normalize_mode lib opened) (max_size_kb * 1024) 95 1 of
                  Inl e \<Rightarrow> (Inl e, w)
                | Inr img_byte_arr \<Rightarrow>
                    (case write_file lib image_path img_byte_arr of
                       Refused \<Rightarrow> (Inl OSError, w)
                     | Torn partial \<Rightarrow> (Inl OSError, w\<lparr>fs := (fs w)(image_path \<mapsto> partial)\<rparr>)
                     | Written \<Rightarrow>
                         (Inr (case fs (w\<lparr>fs := (fs w)(image_path \<mapsto> img_byte_arr)\<rparr>) image_path of
                                 Some b \<Rightarrow> length b \<le> max_size_kb * 1024
                               | None \<Rightarrow> False),
                          w\<lparr>fs := (fs w)(image_path \<mapsto> img_byte_arr)\<rparr>)))))"


text \<open>
  A small codec standing in for Pillow, to run the model on concrete files. A file is the
  length of the mode name, the mode name, width, height and the pixels. The JPEG writer
  accepts the modes that Pillow's accepts and raises \<open>OSError\<close> for any other (Pillow:
  "cannot write mode LA as JPEG"); what it writes reads back as L, CMYK or RGB, as a JPEG
  file does. Resizing to an empty size raises \<open>ValueError\<close>. Every write succeeds.
\<close>

definition jpeg_modes :: "pystr list" where
  "jpeg_modes = [py ''1'', py ''L'', py ''RGB'', py ''RGBX'', py ''CMYK'', py ''YCbCr'']"

definition jpeg_read_mode :: "pystr \<Rightarrow> pystr" where
  "jpeg_read_mode m =
     (if m \<in> set [py ''1'', py ''L''] then py ''L''
      else if m = py ''CMYK'' then py ''CMYK'' else py ''RGB'')"

definition demo_open :: "bytes \<Rightarrow> image option" where
  "demo_open raw =
     (case raw of
        [] \<Rightarrow> None
      | n # body \<Rightarrow>
          if n = 0 \<or> length body < n + 2 then None
          else Some \<lparr>im_mode = take n body, im_size = (body ! n, body ! (n + 1)),
                      im_data = drop (n + 2) body\<rparr>)"

definition demo_file :: "pystr \<Rightarrow> nat \<times> nat \<Rightarrow> bytes \<Rightarrow> bytes" where
  "demo_file m sz px = length m # m @ [fst sz, snd sz] @ px"

definition demo_save :: "image \<Rightarrow> int \<Rightarrow> exn + bytes" where
  "demo_save img quality =
     (if im_mode img \<in> set jpeg_modes
      then Inr (demo_file (jpeg_read_mode (im_mode img)) (im_size img)
                  (replicate (fst (im_size img) * snd (im_size img) * nat quality div 100) 0))
      else Inl OSError)"

definition demo_resize :: "image \<Rightarrow> nat \<times> nat \<Rightarrow> exn + image" where
  "demo_resize img sz =
     (if fst sz = 0 \<or> snd sz = 0 then Inl ValueError else Inr (img\<lparr>im_size := sz\<rparr>))"

definition demo_pil :: pil where
  "demo_pil = \<lparr>image_open = demo_open,
               convert = (\<lambda>img m. img\<lparr>im_mode := m\<rparr>),
               resize = demo_resize,
               save_jpeg = demo_save,
               write_file = (\<lambda>p data. Written)\<rparr>"

definition one_file :: "path \<Rightarrow> bytes \<Rightarrow> world" where
  "one_file p raw = \<lparr>fs = [p \<mapsto> raw], trace = []\<rparr>"

lemma demo_open_file:
  "m \<noteq> [] \<Longrightarrow> demo_open (demo_file m sz px) = Some \<lparr>im_mode = m, im_size = sz, im_data = px\<rparr>"
  by (simp add: demo_open_def demo_file_def nth_append)



lemma floor_rat_numeral: "\<lfloor>(numeral a :: rat) / numeral b\<rfloor> = numeral a div numeral b"
  using floor_divide_of_int_eq [of "numeral a" "numeral b", where ?'a = rat] by simp

lemma length_demo_file: "length (demo_file m sz px) = length m + 3 + length px"
  by (simp add: demo_file_def)







text \<open>
  Where the call returns, the file has been rewritten whatever its size before and whatever
  boolean is returned: a file of six bytes, far under the budget, is replaced by an encoding
  of two megabytes, and the result is \<open>False\<close>.
\<close>

lemma demo_run_large:
  "compress_image demo_pil (py ''temp_a_0.png'') 900
     (one_file (py ''temp_a_0.png'') (demo_file (py ''RGB'') (10000, 10000) []))
   = (Inr False, \<lparr>fs = [py ''temp_a_0.png'' \<mapsto>
                          demo_file (py ''RGB'') (3164, 3164) (replicate 2002179 0)],
                 trace = []\<rparr>)"
  by (simp add: compress_image_def normalize_mode_def one_file_def demo_pil_def demo_open_file
      py_def compress_loop.simps demo_save_def jpeg_modes_def jpeg_read_mode_def demo_resize_def
      scaled_size_def length_demo_file floor_rat_numeral)

lemma demo_run_la:
  "compress_image demo_pil (py ''temp_a_0.png'') 900
     (one_file (py ''temp_a_0.png'') (demo_file (py ''LA'') (4, 4) (replicate 16 7)))
   = (Inl OSError, one_file (py ''temp_a_0.png'') (demo_file (py ''LA'') (4, 4) (replicate 16 7)))"
  by (simp add: compress_image_def normalize_mode_def one_file_def demo_pil_def demo_open_file
      py_def compress_loop.simps demo_save_def jpeg_modes_def length_demo_file)

text \<open>
  C10. Every decodable image is to end up as JPEG data at its path. The conversion before
  the encoding covers the modes RGBA and P only, so a greyscale image with alpha (mode LA)
  reaches the JPEG writer as it is, the writer raises, and the file keeps the bytes it had.
\<close>

theorem compress_image_raises_on_la:
  "image_open demo_pil (demo_file (py ''LA'') (4, 4) (replicate 16 7))
     = Some \<lparr>im_mode = py ''LA'', im_size = (4, 4), im_data = replicate 16 7\<rparr>
   \<and> compress_image demo_pil (py ''temp_a_0.png'') 900
        (one_file (py ''temp_a_0.png'') (demo_file (py ''LA'') (4, 4) (replicate 16 7)))
      = (Inl OSError, one_file (py ''temp_a_0.png'') (demo_file (py ''LA'') (4, 4) (replicate 16 7)))"
  using demo_run_la by (simp add: demo_pil_def demo_open_file py_def)

section \<open>compress\_video\<close>

text \<open>
  The external tools are parameters of the model, each a function of the content of the
  files it reads: \<open>ffprobe\<close> for the audio streams and for the duration (\<open>None\<close>: the
  probe fails), \<open>ffmpeg\<close> encoding at a CRF with a target bitrate, with or without audio
  (\<open>None\<close>: it leaves no output file), the conversion of a GIF and the merge of a video with
  its audio (exit status, and the output file if one was written).
\<close>

record ffmpeg =
  probe_audio :: "bytes \<Rightarrow> bool option"
  probe_duration :: "bytes \<Rightarrow> rat option"
  encode :: "bytes \<Rightarrow> int \<Rightarrow> int \<Rightarrow> bool \<Rightarrow> bytes option"
  gif_to_mp4 :: "bytes \<Rightarrow> bool \<times> bytes option"
  merge_streams :: "bytes \<Rightarrow> bytes \<Rightarrow> bool \<times> bytes option"

definition check_video_audio :: "ffmpeg \<Rightarrow> path \<Rightarrow> world \<Rightarrow> bool" where
  "check_video_audio tools video_path w =
     (case fs w video_path of
        None \<Rightarrow> False
      | Some video \<Rightarrow> (case probe_audio tools video of None \<Rightarrow> False | Some has_audio \<Rightarrow> has_audio))"

definition get_video_duration :: "ffmpeg \<Rightarrow> path \<Rightarrow> world \<Rightarrow> rat" where
  "get_video_duration tools video_path w =
     (case fs w video_path of
        None \<Rightarrow> 30
      | Some video \<Rightarrow> (case probe_duration tools video of None \<Rightarrow> 30 | Some d \<Rightarrow> d))"

text \<open>
  \<open>int(x)\<close> on a float truncates towards zero.
\<close>

definition py_int :: "rat \<Rightarrow> int" where
  "py_int r = (if r < 0 then \<lceil>r\<rceil> else \<lfloor>r\<rfloor>)"

text \<open>
  One run of \<open>ffmpeg\<close> in the search loop. \<open>subprocess.run\<close> is called without
  \<open>check=True\<close>, so it never raises \<open>CalledProcessError\<close>: the \<open>except\<close> clause of the
  loop, which would raise \<open>min_crf\<close>, is never entered, and a failed run shows only as a
  missing output file.
\<close>

definition run_encode :: "ffmpeg \<Rightarrow> path \<Rightarrow> path \<Rightarrow> int \<Rightarrow> int \<Rightarrow> bool \<Rightarrow> world \<Rightarrow> world" where
  "run_encode tools video_path output_path crf target_bitrate has_audio w =
     (case fs w video_path of
        None \<Rightarrow> w
      | Some video \<Rightarrow>
          (case encode tools video crf target_bitrate has_audio of
             None \<Rightarrow> w
           | Some out \<Rightarrow> w\<lparr>fs := (fs w)(output_path \<mapsto> out)\<rparr>))"

definition remove_file :: "path \<Rightarrow> world \<Rightarrow> world" where
  "remove_file p w = w\<lparr>fs := (fs w)(p := None)\<rparr>"

definition rename_file :: "path \<Rightarrow> path \<Rightarrow> world \<Rightarrow> world" where
  "rename_file src dst w = w\<lparr>fs := (fs w)(dst := fs w src, src := None)\<rparr>"

text \<open>
  The loop \<open>while min_crf <= max_crf\<close>. When the output file is missing the body changes
  neither bound. The test \<open>current_size > target_size * 0.9\<close> is written with integers; for
  the budget of 900 KB the float product is exactly 829440. \<open>None\<close> stands for a run that
  never returns.
\<close>

partial_function (option) crf_loop ::
  "ffmpeg \<Rightarrow> path \<Rightarrow> path \<Rightarrow> nat \<Rightarrow> int \<Rightarrow> bool \<Rightarrow> int \<Rightarrow> int \<Rightarrow> int \<Rightarrow> world
     \<Rightarrow> ((exn + bool) \<times> world) option" where
  "crf_loop tools video_path output_path target_size target_bitrate has_audio
       min_crf max_crf current_crf w =
     (if min_crf \<le> max_crf then
        (case fs (run_encode tools video_path output_path current_crf target_bitrate has_audio w)
                output_path of
           None \<Rightarrow>
             crf_loop tools video_path output_path target_size target_bitrate has_audio
               min_crf max_crf ((min_crf + max_crf) div 2)
               (run_encode tools video_path output_path current_crf target_bitrate has_audio w)
         | Some out \<Rightarrow>
             if length out \<le> target_size then
               (if current_crf = min_crf \<or> 9 * target_size < 10 * length out then
                  Some (Inr True,
                        rename_file output_path video_path
                          (remove_file video_path
                             (run_encode tools video_path output_path current_crf
                                target_bitrate has_audio w)))
                else
                  crf_loop tools video_path output_path target_size target_bitrate has_audio
                    min_crf (current_crf - 1) ((min_crf + (current_crf - 1)) div 2)
                    (remove_file output_path
                       (run_encode tools video_path output_path current_crf
                          target_bitrate has_audio w)))
             else
               crf_loop tools video_path output_path target_size target_bitrate has_audio
                 (current_crf + 1) max_crf ((current_crf + 1 + max_crf) div 2)
                 (remove_file output_path
                    (run_encode tools video_path output_path current_crf
                       target_bitrate has_audio w)))
      else Some (Inr False, w))"

definition compress_video :: "ffmpeg \<Rightarrow> path \<Rightarrow> nat \<Rightarrow> world \<Rightarrow> ((exn + bool) \<times> world) option" where
  "compress_video tools video_path max_size_kb w =
     (case fs w video_path of
        None \<Rightarrow> Some (Inl FileNotFoundError, w)
      | Some video \<Rightarrow>
          if get_video_duration tools video_path w * 1024 = 0 then Some (Inl ZeroDivisionError, w)
          else if length video \<le> max_size_kb * 1024 then Some (Inr True, w)
          else crf_loop tools video_path (video_path @ py ''_compressed.mp4'')
                 (max_size_kb * 1024)
                 (min 2000 (py_int (of_nat (max_size_kb * 1024 * 8)
                                     / (get_video_duration tools video_path w * 1024))))
                 (check_video_audio tools video_path w) 18 35 18 w)"

text \<open>
  Tools that fail on every file: the probes fail and \<open>ffmpeg\<close> writes no output, as for
  a download that is not a video at all.
\<close>

definition silent_ffmpeg :: ffmpeg where
  "silent_ffmpeg = \<lparr>probe_audio = (\<lambda>v. None), probe_duration = (\<lambda>v. None),
                    encode = (\<lambda>v crf rate audio. None),
                    gif_to_mp4 = (\<lambda>v. (False, None)),
                    merge_streams = (\<lambda>v a. (False, None))\<rparr>"

definition stuck :: "ffmpeg \<Rightarrow> path \<Rightarrow> int \<Rightarrow> int \<Rightarrow> world \<Rightarrow> bool" where
  "stuck tools output_path min_crf max_crf w \<longleftrightarrow>
     min_crf \<le> max_crf \<and> fs w output_path = None \<and> (\<forall>v c b a. encode tools v c b a = None)"

lemma crf_loop_no_output_never_returns:
  assumes "crf_loop tools video_path output_path target_size target_bitrate has_audio
       min_crf max_crf current_crf w = Some y"
  shows "\<not> stuck tools output_path min_crf max_crf w"
proof (rule crf_loop.raw_induct
    [where P = "\<lambda>tools video_path output_path target_size target_bitrate has_audio
                  min_crf max_crf current_crf w y. \<not> stuck tools output_path min_crf max_crf w",
     OF _ assms])
  fix loop :: "ffmpeg \<Rightarrow> path \<Rightarrow> path \<Rightarrow> nat \<Rightarrow> int \<Rightarrow> bool \<Rightarrow> int \<Rightarrow> int \<Rightarrow> int \<Rightarrow> world
     \<Rightarrow> ((exn + bool) \<times> world) option"
    and tools video_path output_path target_size target_bitrate has_audio
    and min_crf max_crf current_crf :: int and w y
  assume IH: "\<And>t vp op ts tb ha mn mx cur w' y'.
      loop t vp op ts tb ha mn mx cur w' = Some y' \<Longrightarrow> \<not> stuck t op mn mx w'"
  assume step: "(if min_crf \<le> max_crf then
        (case fs (run_encode tools video_path output_path current_crf target_bitrate has_audio w)
                output_path of
           None \<Rightarrow>
             loop tools video_path output_path target_size target_bitrate has_audio
               min_crf max_crf ((min_crf + max_crf) div 2)
               (run_encode tools video_path output_path current_crf target_bitrate has_audio w)
         | Some out \<Rightarrow>
             if length out \<le> target_size then
               (if current_crf = min_crf \<or> 9 * target_size < 10 * length out then
                  Some (Inr True,
                        rename_file output_path video_path
                          (remove_file video_path
                             (run_encode tools video_path output_path current_crf
                                target_bitrate has_audio w)))
                else
                  loop tools video_path output_path target_size target_bitrate has_audio
                    min_crf (current_crf - 1) ((min_crf + (current_crf - 1)) div 2)
                    (remove_file output_path
                       (run_encode tools video_path output_path current_crf
                          target_bitrate has_audio w)))
             else
               loop tools video_path output_path target_size target_bitrate has_audio
                 (current_crf + 1) max_crf ((current_crf + 1 + max_crf) div 2)
                 (remove_file output_path
                    (run_encode tools video_path output_path current_crf
                       target_bitrate has_audio w)))
      else Some (Inr False, w)) = Some y"
  show "\<not> stuck tools output_path min_crf max_crf w"
  proof
    assume st: "stuck tools output_path min_crf max_crf w"
    then have same: "run_encode tools video_path output_path current_crf target_bitrate has_audio w = w"
      by (simp add: stuck_def run_encode_def split: option.splits)
    from step st same
    have "loop tools video_path output_path target_size target_bitrate has_audio
            min_crf max_crf ((min_crf + max_crf) div 2) w = Some y"
      by (simp add: stuck_def)
    from IH [OF this] st show False by simp
  qed
qed

text \<open>
  C2. \<open>compress_video\<close> is to terminate on every input because each iteration shrinks
  the range of the search. On a file over the budget that \<open>ffmpeg\<close> cannot encode, no
  iteration changes the bounds (18 and 35 throughout), and the call never returns.
\<close>

theorem compress_video_never_returns:
  "compress_video silent_ffmpeg (py ''temp_x_0.mp4'') 900
     \<lparr>fs = [py ''temp_x_0.mp4'' \<mapsto> replicate 921601 0], trace = []\<rparr> = None"
proof (rule ccontr)
  assume "compress_video silent_ffmpeg (py ''temp_x_0.mp4'') 900
     \<lparr>fs = [py ''temp_x_0.mp4'' \<mapsto> replicate 921601 0], trace = []\<rparr> \<noteq> None"
  then obtain y where "compress_video silent_ffmpeg (py ''temp_x_0.mp4'') 900
     \<lparr>fs = [py ''temp_x_0.mp4'' \<mapsto> replicate 921601 0], trace = []\<rparr> = Some y" by blast
  then have "crf_loop silent_ffmpeg (py ''temp_x_0.mp4'') (py ''temp_x_0.mp4'' @ py ''_compressed.mp4'')
      (900 * 1024) (min 2000 (py_int (of_nat (900 * 1024 * 8) / (30 * 1024)))) False 18 35 18
      \<lparr>fs = [py ''temp_x_0.mp4'' \<mapsto> replicate 921601 0], trace = []\<rparr> = Some y"
    by (simp add: compress_video_def get_video_duration_def check_video_audio_def silent_ffmpeg_def)
  from crf_loop_no_output_never_returns [OF this] show False
    by (simp add: stuck_def silent_ffmpeg_def py_def)
qed

text \<open>
  When every run of \<open>ffmpeg\<close> leaves an output file, each iteration does shrink the range,
  and the search returns.
\<close>

lemma crf_loop_returns_when_output:
  assumes enc: "\<forall>c. encode tools v c tb ha \<noteq> None" and distinct: "output_path \<noteq> video_path"
  shows "fs w video_path = Some v \<Longrightarrow> (mn \<le> mx \<longrightarrow> mn \<le> cur \<and> cur \<le> mx) \<Longrightarrow>
         \<exists>y. crf_loop tools video_path output_path ts tb ha mn mx cur w = Some y"
proof (induction "nat (mx - mn + 1)" arbitrary: mn mx cur w rule: less_induct)
  case less
  show ?case
  proof (cases "mn \<le> mx")
    case False
    then show ?thesis by (subst crf_loop.simps) simp
  next
    case True
    with less.prems have cur: "mn \<le> cur" "cur \<le> mx" by auto
    define w1 where "w1 = run_encode tools video_path output_path cur tb ha w"
    from enc obtain out where out: "encode tools v cur tb ha = Some out" by fastforce
    with less.prems(1) have w1: "w1 = w\<lparr>fs := (fs w)(output_path \<mapsto> out)\<rparr>"
      by (simp add: w1_def run_encode_def)
    then have o: "fs w1 output_path = Some out" by simp
    have keep: "fs (remove_file output_path w1) video_path = Some v"
      using less.prems(1) distinct by (simp add: w1 remove_file_def)
    show ?thesis
    proof (cases "length out \<le> ts")
      case small: True
      show ?thesis
      proof (cases "cur = mn \<or> 9 * ts < 10 * length out")
        case True
        with \<open>mn \<le> mx\<close> o small show ?thesis
          by (subst crf_loop.simps) (simp add: w1_def [symmetric])
      next
        case False
        then have "mn < cur" using cur by auto
        then have m: "nat (cur - 1 - mn + 1) < nat (mx - mn + 1)"
          and r: "mn \<le> cur - 1 \<longrightarrow> mn \<le> (mn + (cur - 1)) div 2 \<and> (mn + (cur - 1)) div 2 \<le> cur - 1"
          using cur by auto
        from less.hyps [OF m keep r] obtain y where
          "crf_loop tools video_path output_path ts tb ha mn (cur - 1) ((mn + (cur - 1)) div 2)
             (remove_file output_path w1) = Some y" by blast
        with \<open>mn \<le> mx\<close> o small False show ?thesis
          by (subst crf_loop.simps) (simp add: w1_def [symmetric])
      qed
    next
      case False
      have m: "nat (mx - (cur + 1) + 1) < nat (mx - mn + 1)"
        and r: "cur + 1 \<le> mx \<longrightarrow> cur + 1 \<le> (cur + 1 + mx) div 2 \<and> (cur + 1 + mx) div 2 \<le> mx"
        using cur by auto
      from less.hyps [OF m keep r] obtain y where
        "crf_loop tools video_path output_path ts tb ha (cur + 1) mx ((cur + 1 + mx) div 2)
           (remove_file output_path w1) = Some y" by blast
      with \<open>mn \<le> mx\<close> o False show ?thesis
        by (subst crf_loop.simps) (simp add: w1_def [symmetric])
    qed
  qed
qed

section \<open>create\_bluesky\_thread\<close>

text \<open>
  A call to the Bluesky client raises, returns something falsy, or returns a result: the
  blob of an upload, the URI of a created post. The answers are a parameter of the model;
  the number given to each is the length of the trace at the call.
\<close>

datatype 'a api_result = Raised | Falsy | Returned 'a

record bsky =
  upload_blob :: "nat \<Rightarrow> bytes \<Rightarrow> blob api_result"
  send_post :: "nat \<Rightarrow> send_post_call \<Rightarrow> pystr api_result"
  send_video :: "nat \<Rightarrow> send_video_call \<Rightarrow> pystr api_result"

text \<open>
  The variables \<open>root_uri\<close> and \<open>parent_uri\<close>, both \<open>None\<close> at the start.
\<close>

record thread_state =
  root_uri :: "pystr option"
  parent_uri :: "pystr option"

text \<open>
  Truth value of a string or \<open>None\<close>; \<open>str.lower\<close> on the ASCII letters, which decide
  the suffix tests below; \<open>str.endswith\<close>; \<open>s.split("/")[-1]\<close>; \<open>str(n)\<close>.
\<close>

definition truthy :: "pystr option \<Rightarrow> bool" where
  "truthy u = (case u of None \<Rightarrow> False | Some s \<Rightarrow> s \<noteq> [])"

definition lower :: "pystr \<Rightarrow> pystr" where
  "lower s = map (\<lambda>c. if 65 \<le> c \<and> c \<le> 90 then c + 32 else c) s"

definition endswith :: "pystr \<Rightarrow> pystr \<Rightarrow> bool" where
  "endswith s suffix \<longleftrightarrow> length suffix \<le> length s \<and> drop (length s - length suffix) s = suffix"

definition last_segment :: "pystr \<Rightarrow> pystr" where
  "last_segment s = rev (takeWhile (\<lambda>c. c \<noteq> 47) (rev s))"

fun digits :: "nat \<Rightarrow> nat \<Rightarrow> pystr" where
  "digits 0 n = []"
| "digits (Suc fuel) n = (if n < 10 then [48 + n] else digits fuel (n div 10) @ [48 + n mod 10])"

definition str_of_nat :: "nat \<Rightarrow> pystr" where
  "str_of_nat n = digits (Suc n) n"

definition verify_file_size :: "path \<Rightarrow> nat \<Rightarrow> world \<Rightarrow> bool" where
  "verify_file_size file_path max_size_kb w =
     (case fs w file_path of None \<Rightarrow> False | Some b \<Rightarrow> length b \<le> max_size_kb * 1024)"

text \<open>
  \<open>convert_gif_to_mp4\<close> writes next to the GIF a file with the extension \<open>.mp4\<close>; on
  success it removes the GIF and returns the new path, on failure it removes a partial
  output and returns \<open>None\<close>.
\<close>

definition convert_gif_to_mp4 :: "ffmpeg \<Rightarrow> path \<Rightarrow> world \<Rightarrow> path option \<times> world" where
  "convert_gif_to_mp4 tools gif_path w =
     (let output_path = slice_to gif_path (- 4) @ py ''.mp4'';
          ran = (case fs w gif_path of None \<Rightarrow> (False, None) | Some gif \<Rightarrow> gif_to_mp4 tools gif);
          w1 = (case snd ran of None \<Rightarrow> w | Some b \<Rightarrow> w\<lparr>fs := (fs w)(output_path \<mapsto> b)\<rparr>)
      in if fst ran then
           (if fs w1 output_path \<noteq> None then (Some output_path, remove_file gif_path w1)
            else (None, w1))
         else
           (if fs w1 output_path \<noteq> None then (None, remove_file output_path w1)
            else (None, w1)))"

text \<open>
  The reply reference built when both \<open>root_uri\<close> and \<open>parent_uri\<close> are truthy, and the
  update of the two variables after a post was created.
\<close>

definition reply_for :: "thread_state \<Rightarrow> reply_ref option" where
  "reply_for st =
     (case (root_uri st, parent_uri st) of
        (Some r, Some p) \<Rightarrow>
          if r \<noteq> [] \<and> p \<noteq> [] then
            Some \<lparr>root_ref = \<lparr>uri = r, cid = last_segment r\<rparr>,
                  parent_ref = \<lparr>uri = p, cid = last_segment p\<rparr>\<rparr>
          else None
      | _ \<Rightarrow> None)"

definition posted :: "pystr \<Rightarrow> thread_state \<Rightarrow> thread_state" where
  "posted u st = \<lparr>root_uri = (if truthy (root_uri st) then root_uri st else Some u),
                  parent_uri = Some u\<rparr>"

text \<open>
  The inner loop over the files of one batch: a file over the budget is compressed, and
  skipped when that returns \<open>False\<close>; an exception of \<open>compress_image\<close> or of reading the
  file leaves the loop (the outer handler catches it); a failed upload is skipped.
\<close>

fun upload_images ::
  "pil \<Rightarrow> bsky \<Rightarrow> pystr \<Rightarrow> path list \<Rightarrow> image_item list \<Rightarrow> world \<Rightarrow> (exn + image_item list) \<times> world" where
  "upload_images lib client alt_text [] images w = (Inr images, w)"
| "upload_images lib client alt_text (media_path # later) images w =
     (case (if verify_file_size media_path 900 w then (Inr True, w)
            else compress_image lib media_path 900 w) of
        (Inl e, w1) \<Rightarrow> (Inl e, w1)
      | (Inr usable, w1) \<Rightarrow>
          if \<not> usable then upload_images lib client alt_text later images w1
          else
            (case fs w1 media_path of
               None \<Rightarrow> (Inl FileNotFoundError, w1)
             | Some image_data \<Rightarrow>
                 (case upload_blob client (length (trace w1)) image_data of
                    Returned b \<Rightarrow>
                      upload_images lib client alt_text later
                        (images @ [\<lparr>item_image = b, item_alt = alt_text\<rparr>])
                        (log_event (UploadBlob image_data) w1)
                  | _ \<Rightarrow>
                      upload_images lib client alt_text later images
                        (log_event (UploadBlob image_data) w1))))"

definition continued_caption :: "nat \<Rightarrow> nat \<Rightarrow> pystr" where
  "continued_caption i n =
     py ''Continued... ('' @ str_of_nat (i div 4 + 1) @ py ''/'' @ str_of_nat ((n + 3) div 4) @ py '')''"

text \<open>
  The loop \<open>for i in range(0, len(image_paths), 4)\<close>. The text and the facets of a batch
  depend on \<open>i == 0\<close>, not on whether a root exists yet; a failed \<open>send_post\<close> is skipped.
\<close>

fun post_batches ::
  "pil \<Rightarrow> bsky \<Rightarrow> pystr \<Rightarrow> facet list \<Rightarrow> pystr \<Rightarrow> path list \<Rightarrow> nat list \<Rightarrow> thread_state \<Rightarrow> world
     \<Rightarrow> (exn + thread_state) \<times> world" where
  "post_batches lib client formatted_text facets chunk0 image_paths [] st w = (Inr st, w)"
| "post_batches lib client formatted_text facets chunk0 image_paths (i # later) st w =
     (case upload_images lib client (slice_to chunk0 300) (take 4 (drop i image_paths)) [] w of
        (Inl e, w1) \<Rightarrow> (Inl e, w1)
      | (Inr images, w1) \<Rightarrow>
          if images = [] then
            post_batches lib client formatted_text facets chunk0 image_paths later st w1
          else
            (case send_post client (length (trace w1))
                    \<lparr>sp_text = (if i = 0 then formatted_text
                                 else continued_caption i (length image_paths)),
                     sp_facets = (if i = 0 then Some facets else None),
                     sp_embed = images,
                     sp_reply_to = reply_for st\<rparr> of
               Returned u \<Rightarrow>
                 post_batches lib client formatted_text facets chunk0 image_paths later
                   (posted u st)
                   (log_event (SendPost
                      \<lparr>sp_text = (if i = 0 then formatted_text
                                   else continued_caption i (length image_paths)),
                       sp_facets = (if i = 0 then Some facets else None),
                       sp_embed = images,
                       sp_reply_to = reply_for st\<rparr>) w1)
             | _ \<Rightarrow>
                 post_batches lib client formatted_text facets chunk0 image_paths later st
                   (log_event (SendPost
                      \<lparr>sp_text = (if i = 0 then formatted_text
                                   else continued_caption i (length image_paths)),
                       sp_facets = (if i = 0 then Some facets else None),
                       sp_embed = images,
                       sp_reply_to = reply_for st\<rparr>) w1)))"

text \<open>
  The arguments of \<open>send_video\<close>. The reply reference computed just before the call is
  not among them. The result of \<open>check_video_audio\<close> in this loop is discarded, so the call
  is left out.
\<close>

definition send_video_args :: "pystr \<Rightarrow> facet list \<Rightarrow> pystr \<Rightarrow> bytes \<Rightarrow> thread_state \<Rightarrow> send_video_call" where
  "send_video_args formatted_text facets chunk0 video_data st =
     \<lparr>sv_text = (if \<not> truthy (root_uri st) then formatted_text else chunk0 @ py '' (Video)''),
      sv_video = video_data,
      sv_video_alt = chunk0,
      sv_facets = (if \<not> truthy (root_uri st) then Some facets else None),
      sv_reply_to = None\<rparr>"

definition video_file :: "ffmpeg \<Rightarrow> path \<Rightarrow> world \<Rightarrow> path \<times> world" where
  "video_file tools video_path w =
     (if endswith video_path (py ''.gif'') then
        (case convert_gif_to_mp4 tools video_path w of
           (Some mp4_path, w1) \<Rightarrow> (if mp4_path \<noteq> [] then mp4_path else video_path, w1)
         | (None, w1) \<Rightarrow> (video_path, w1))
      else (video_path, w))"

text \<open>
  The loop over the video paths. \<open>None\<close> stands for a run in which \<open>compress_video\<close>
  never returns. An exception of \<open>send_video\<close> is not handled in the loop.
\<close>

fun post_videos ::
  "ffmpeg \<Rightarrow> bsky \<Rightarrow> pystr \<Rightarrow> facet list \<Rightarrow> pystr \<Rightarrow> path list \<Rightarrow> thread_state \<Rightarrow> world
     \<Rightarrow> ((exn + thread_state) \<times> world) option" where
  "post_videos tools client formatted_text facets chunk0 [] st w = Some (Inr st, w)"
| "post_videos tools client formatted_text facets chunk0 (listed_path # later) st w =
     (case video_file tools listed_path w of
        (video_path, w1) \<Rightarrow>
          (case (if verify_file_size video_path 900 w1 then Some (Inr True, w1)
                 else compress_video tools video_path 900 w1) of
             None \<Rightarrow> None
           | Some (Inl e, w2) \<Rightarrow> Some (Inl e, w2)
           | Some (Inr usable, w2) \<Rightarrow>
               if \<not> usable then post_videos tools client formatted_text facets chunk0 later st w2
               else
                 (case fs w2 video_path of
                    None \<Rightarrow> Some (Inl FileNotFoundError, w2)
                  | Some video_data \<Rightarrow>
                      (case send_video client (length (trace w2))
                              (send_video_args formatted_text facets chunk0 video_data st) of
                         Raised \<Rightarrow>
                           Some (Inl ClientError,
                                 log_event (SendVideo
                                   (send_video_args formatted_text facets chunk0 video_data st)) w2)
                       | Falsy \<Rightarrow>
                           post_videos tools client formatted_text facets chunk0 later st
                             (log_event (SendVideo
                                (send_video_args formatted_text facets chunk0 video_data st)) w2)
                       | Returned u \<Rightarrow>
                           post_videos tools client formatted_text facets chunk0 later (posted u st)
                             (log_event (SendVideo
                                (send_video_args formatted_text facets chunk0 video_data st)) w2)))))"

definition is_image_path :: "path \<Rightarrow> bool" where
  "is_image_path p \<longleftrightarrow>
     (\<exists>ext \<in> set [py ''.jpg'', py ''.jpeg'', py ''.png'', py ''.webp'']. endswith (lower p) ext)"

definition is_video_path :: "path \<Rightarrow> bool" where
  "is_video_path p \<longleftrightarrow> (\<exists>ext \<in> set [py ''.mp4'', py ''.gif'']. endswith (lower p) ext)"

definition image_paths_of :: "path list \<Rightarrow> path list" where
  "image_paths_of media_paths = filter is_image_path media_paths"

definition video_paths_of :: "path list \<Rightarrow> path list" where
  "video_paths_of media_paths = filter is_video_path media_paths"

definition batch_starts :: "nat \<Rightarrow> nat list" where
  "batch_starts n = map (\<lambda>k. 4 * k) [0..<(n + 3) div 4]"

definition quoted_text :: "pystr \<Rightarrow> pystr \<Rightarrow> pystr" where
  "quoted_text title author = [34] @ title @ [34, 10, 10] @ py ''- u/'' @ author"

text \<open>
  \<open>create_bluesky_thread\<close>. The handler around the whole body turns every exception into
  the result \<open>False\<close>; what was done before stays done.
\<close>

definition formatted_text_of :: "pystr \<Rightarrow> pystr" where
  "formatted_text_of chunk0 = chunk0 @ [10, 10] @ hashtag_section"

definition create_bluesky_thread ::
  "pil \<Rightarrow> ffmpeg \<Rightarrow> bsky \<Rightarrow> pystr \<Rightarrow> path list \<Rightarrow> pystr \<Rightarrow> world \<Rightarrow> (bool \<times> world) option" where
  "create_bluesky_thread lib tools client title media_paths author w =
     (case split_into_thread (quoted_text title author) 300 of
        None \<Rightarrow> None
      | Some [] \<Rightarrow> Some (False, w)
      | Some (chunk0 # more_chunks) \<Rightarrow>
          (case create_hashtag_facets (formatted_text_of chunk0) of
             Inl e \<Rightarrow> Some (False, w)
           | Inr facets \<Rightarrow>
               (case post_batches lib client (formatted_text_of chunk0) facets chunk0
                       (image_paths_of media_paths)
                       (batch_starts (length (image_paths_of media_paths)))
                       \<lparr>root_uri = None, parent_uri = None\<rparr> w of
                  (Inl e, w1) \<Rightarrow> Some (False, w1)
                | (Inr st, w1) \<Rightarrow>
                    (case post_videos tools client (formatted_text_of chunk0) facets
                            chunk0 (video_paths_of media_paths) st w1 of
                       None \<Rightarrow> None
                     | Some (Inl e, w2) \<Rightarrow> Some (False, w2)
                     | Some (Inr st2, w2) \<Rightarrow> Some (True, w2)))))"

text \<open>
  A client that accepts every call, and the text, formatted text and facets of the post
  "Nice pass!" by alice.
\<close>

definition steady_client :: bsky where
  "steady_client =
     \<lparr>upload_blob = (\<lambda>n b. Returned (py ''blob-'' @ str_of_nat n)),
      send_post = (\<lambda>n c. Returned (py ''at://bot/post/'' @ str_of_nat n)),
      send_video = (\<lambda>n c. Returned (py ''at://bot/post/'' @ str_of_nat n))\<rparr>"

definition nice_text :: pystr where
  "nice_text = quoted_text (py ''Nice pass!'') (py ''alice'')"

definition nice_formatted :: pystr where
  "nice_formatted = formatted_text_of nice_text"

definition nice_facets :: "facet list" where
  "nice_facets =
     [\<lparr>index = \<lparr>byteStart = 25, byteEnd = 28\<rparr>,
       features = [\<lparr>ftype = py ''app.bsky.richtext.facet#tag'', tag = py ''f1''\<rparr>]\<rparr>,
      \<lparr>index = \<lparr>byteStart = 29, byteEnd = 38\<rparr>,
       features = [\<lparr>ftype = py ''app.bsky.richtext.facet#tag'', tag = py ''formula1''\<rparr>]\<rparr>,
      \<lparr>index = \<lparr>byteStart = 39, byteEnd = 45\<rparr>,
       features = [\<lparr>ftype = py ''app.bsky.richtext.facet#tag'', tag = py ''memes''\<rparr>]\<rparr>,
      \<lparr>index = \<lparr>byteStart = 46, byteEnd = 57\<rparr>,
       features = [\<lparr>ftype = py ''app.bsky.richtext.facet#tag'', tag = RACE_HASHTAG\<rparr>]\<rparr>]"

lemma nice_chunks: "split_into_thread nice_text 300 = Some [nice_text]"
  by (simp add: split_into_thread_def first_post_limit_eq nice_text_def quoted_text_def py_def)

lemma nice_facets_eq: "create_hashtag_facets nice_formatted = Inr nice_facets"
  by (simp add: create_hashtag_facets_def nice_formatted_def formatted_text_of_def nice_text_def quoted_text_def
      hashtag_section_def RACE_HASHTAG_def py_def utf8_encode_cp_def str_find_def slice_to_def
      nice_facets_def)

lemma str_of_nat_small: "n < 10 \<Longrightarrow> str_of_nat n = [48 + n]"
  by (simp add: str_of_nat_def)

definition photo_and_clip :: world where
  "photo_and_clip =
     \<lparr>fs = [py ''temp_a_0.jpg'' \<mapsto> [7, 8, 9], py ''temp_a_1.mp4'' \<mapsto> [4, 5, 6]], trace = []\<rparr>"

lemma kinds:
  "image_paths_of [py ''temp_a_0.jpg'', py ''temp_a_1.mp4''] = [py ''temp_a_0.jpg'']"
  "video_paths_of [py ''temp_a_0.jpg'', py ''temp_a_1.mp4''] = [py ''temp_a_1.mp4'']"
  by (simp_all add: image_paths_of_def video_paths_of_def is_image_path_def is_video_path_def endswith_def lower_def py_def)

lemma batch_starts_1: "batch_starts (Suc 0) = [0]"
  by (simp add: batch_starts_def)

lemma photo_batch:
  "post_batches lib steady_client nice_formatted nice_facets nice_text [py ''temp_a_0.jpg''] [0]
     \<lparr>root_uri = None, parent_uri = None\<rparr> photo_and_clip
   = (Inr \<lparr>root_uri = Some (py ''at://bot/post/1''), parent_uri = Some (py ''at://bot/post/1'')\<rparr>,
      photo_and_clip\<lparr>trace :=
        [UploadBlob [7, 8, 9],
         SendPost \<lparr>sp_text = nice_formatted, sp_facets = Some nice_facets,
                   sp_embed = [\<lparr>item_image = py ''blob-0'', item_alt = nice_text\<rparr>],
                   sp_reply_to = None\<rparr>]\<rparr>)"
  by (simp add: photo_and_clip_def verify_file_size_def steady_client_def log_event_def
      str_of_nat_small reply_for_def posted_def truthy_def slice_to_def nice_text_def
      quoted_text_def py_def)

lemma clip_post:
  "post_videos tools steady_client nice_formatted nice_facets nice_text [py ''temp_a_1.mp4'']
     \<lparr>root_uri = Some (py ''at://bot/post/1''), parent_uri = Some (py ''at://bot/post/1'')\<rparr>
     (photo_and_clip\<lparr>trace :=
        [UploadBlob [7, 8, 9],
         SendPost \<lparr>sp_text = nice_formatted, sp_facets = Some nice_facets,
                   sp_embed = [\<lparr>item_image = py ''blob-0'', item_alt = nice_text\<rparr>],
                   sp_reply_to = None\<rparr>]\<rparr>)
   = Some (Inr \<lparr>root_uri = Some (py ''at://bot/post/1''), parent_uri = Some (py ''at://bot/post/2'')\<rparr>,
      photo_and_clip\<lparr>trace :=
        [UploadBlob [7, 8, 9],
         SendPost \<lparr>sp_text = nice_formatted, sp_facets = Some nice_facets,
                   sp_embed = [\<lparr>item_image = py ''blob-0'', item_alt = nice_text\<rparr>],
                   sp_reply_to = None\<rparr>,
         SendVideo \<lparr>sv_text = nice_text @ py '' (Video)'', sv_video = [4, 5, 6],
                    sv_video_alt = nice_text, sv_facets = None, sv_reply_to = None\<rparr>]\<rparr>)"
  by (simp add: photo_and_clip_def video_file_def endswith_def verify_file_size_def
      steady_client_def log_event_def send_video_args_def str_of_nat_small posted_def
      truthy_def py_def)

text \<open>
  C1. Every post after the first is to be sent as a reply to the root and to the post
  before it. For one image and one video the image post becomes the root, and the video
  post is sent with no reply reference at all: it is a second top-level post, not part of
  the thread.
\<close>

theorem video_post_sent_without_reply:
  "create_bluesky_thread lib tools steady_client (py ''Nice pass!'')
     [py ''temp_a_0.jpg'', py ''temp_a_1.mp4''] (py ''alice'') photo_and_clip
   = Some (True,
      photo_and_clip\<lparr>trace :=
        [UploadBlob [7, 8, 9],
         SendPost \<lparr>sp_text = nice_formatted, sp_facets = Some nice_facets,
                   sp_embed = [\<lparr>item_image = py ''blob-0'', item_alt = nice_text\<rparr>],
                   sp_reply_to = None\<rparr>,
         SendVideo \<lparr>sv_text = nice_text @ py '' (Video)'', sv_video = [4, 5, 6],
                    sv_video_alt = nice_text, sv_facets = None, sv_reply_to = None\<rparr>]\<rparr>)"
  by (simp add: create_bluesky_thread_def nice_text_def [symmetric] nice_chunks
      nice_formatted_def [symmetric] nice_facets_eq kinds batch_starts_1 photo_batch clip_post
      del: post_batches.simps post_videos.simps)

text \<open>
  A client whose first \<open>send_post\<close> raises, and five images for one title.
\<close>

definition first_post_fails :: bsky where
  "first_post_fails =
     \<lparr>upload_blob = (\<lambda>n b. Returned (py ''blob-'' @ str_of_nat n)),
      send_post = (\<lambda>n c. if n \<le> 4 then Raised else Returned (py ''at://bot/post/'' @ str_of_nat n)),
      send_video = (\<lambda>n c. Returned (py ''at://bot/post/'' @ str_of_nat n))\<rparr>"

definition five_paths :: "path list" where
  "five_paths = [py ''temp_b_0.jpg'', py ''temp_b_1.jpg'', py ''temp_b_2.jpg'',
                 py ''temp_b_3.jpg'', py ''temp_b_4.jpg'']"

definition five_photos :: world where
  "five_photos =
     \<lparr>fs = [py ''temp_b_0.jpg'' \<mapsto> [20], py ''temp_b_1.jpg'' \<mapsto> [21],
             py ''temp_b_2.jpg'' \<mapsto> [22], py ''temp_b_3.jpg'' \<mapsto> [23],
             py ''temp_b_4.jpg'' \<mapsto> [24]], trace = []\<rparr>"

definition five_trace :: "event list" where
  "five_trace =
     [UploadBlob [20], UploadBlob [21], UploadBlob [22], UploadBlob [23],
      SendPost \<lparr>sp_text = nice_formatted, sp_facets = Some nice_facets,
                sp_embed = [\<lparr>item_image = py ''blob-0'', item_alt = nice_text\<rparr>,
                            \<lparr>item_image = py ''blob-1'', item_alt = nice_text\<rparr>,
                            \<lparr>item_image = py ''blob-2'', item_alt = nice_text\<rparr>,
                            \<lparr>item_image = py ''blob-3'', item_alt = nice_text\<rparr>],
                sp_reply_to = None\<rparr>,
      UploadBlob [24],
      SendPost \<lparr>sp_text = py ''Continued... (2/2)'', sp_facets = None,
                sp_embed = [\<lparr>item_image = py ''blob-5'', item_alt = nice_text\<rparr>],
                sp_reply_to = None\<rparr>]"

lemma five_kinds:
  "image_paths_of five_paths = five_paths" "video_paths_of five_paths = []"
  by (simp_all add: image_paths_of_def video_paths_of_def is_image_path_def is_video_path_def
      endswith_def lower_def py_def five_paths_def)

lemma batch_starts_5: "batch_starts (length five_paths) = [0, 4]"
  by (simp add: batch_starts_def five_paths_def upt_rec)

lemma five_batches:
  "post_batches lib first_post_fails nice_formatted nice_facets nice_text five_paths [0, 4]
     \<lparr>root_uri = None, parent_uri = None\<rparr> five_photos
   = (Inr \<lparr>root_uri = Some (py ''at://bot/post/6''), parent_uri = Some (py ''at://bot/post/6'')\<rparr>,
      five_photos\<lparr>trace := five_trace\<rparr>)"
  by (simp add: five_photos_def five_paths_def five_trace_def verify_file_size_def
      first_post_fails_def log_event_def str_of_nat_small reply_for_def posted_def truthy_def
      slice_to_def nice_text_def quoted_text_def continued_caption_def py_def)

text \<open>
  C5. The root of the thread is to carry the full text and the facets, also when an
  earlier attempt failed and a later one became the root. With five images and a first
  \<open>send_post\<close> that fails, the second batch becomes the root, and it is sent with the
  caption "Continued... (2/2)" and without facets.
\<close>

theorem later_batch_becomes_root_with_caption:
  "create_bluesky_thread lib tools first_post_fails (py ''Nice pass!'') five_paths (py ''alice'')
     five_photos
   = Some (True, five_photos\<lparr>trace := five_trace\<rparr>)"
  by (simp add: create_bluesky_thread_def nice_text_def [symmetric] nice_chunks
      nice_formatted_def [symmetric] nice_facets_eq five_kinds batch_starts_5 five_batches
      del: post_batches.simps post_videos.simps)
     simp

section \<open>check\_and\_post\<close>

text \<open>
  What \<open>check_and_post\<close> does for one post once \<open>get_media_urls\<close> has returned its
  list: download each reference to \<open>temp_<id>_<i><ext>\<close>, publish the files that arrived,
  add the id to the ledger on success, and remove the files listed in \<open>media_files\<close>. A
  reference is a URL or a pair of a video URL and an audio URL that may be \<open>None\<close>. The
  ledger is passed as a value; writing it to disk is left out.
\<close>

datatype media_ref = Direct pystr | Pair pystr "pystr option"

definition basename :: "pystr \<Rightarrow> pystr" where
  "basename p = last_segment p"

definition clean_filename :: "media_ref \<Rightarrow> pystr" where
  "clean_filename url =
     basename (takeWhile (\<lambda>c. c \<noteq> 63) (case url of Direct u \<Rightarrow> u | Pair video_url audio_url \<Rightarrow> video_url))"

definition splitext_ext :: "pystr \<Rightarrow> pystr" where
  "splitext_ext name =
     (if 46 \<in> set (dropWhile (\<lambda>c. c = 46) name)
      then 46 # rev (takeWhile (\<lambda>c. c \<noteq> 46) (rev name)) else [])"

definition remove_if_exists :: "path \<Rightarrow> world \<Rightarrow> world" where
  "remove_if_exists p w = (if fs w p \<noteq> None then remove_file p w else w)"

definition merge_video_audio :: "ffmpeg \<Rightarrow> path \<Rightarrow> path \<Rightarrow> path \<Rightarrow> world \<Rightarrow> bool \<times> world" where
  "merge_video_audio tools video_path audio_path output_path w =
     (let ran = (case (fs w video_path, fs w audio_path) of
                   (Some v, Some a) \<Rightarrow> merge_streams tools v a
                 | _ \<Rightarrow> (False, None));
          w1 = (case snd ran of None \<Rightarrow> w | Some b \<Rightarrow> w\<lparr>fs := (fs w)(output_path \<mapsto> b)\<rparr>)
      in (fst ran \<and> fs w1 output_path \<noteq> None, w1))"

definition download_and_process_media ::
  "web \<Rightarrow> ffmpeg \<Rightarrow> media_ref \<Rightarrow> path \<Rightarrow> world \<Rightarrow> bool \<times> world" where
  "download_and_process_media net tools url filename w =
     (case url of
        Direct u \<Rightarrow> download_media net (Some u) filename w
      | Pair video_url audio_url \<Rightarrow>
          (case download_media net (Some video_url) (py ''temp_video_'' @ filename) w of
             (False, w1) \<Rightarrow> (False, w1)
           | (True, w1) \<Rightarrow>
               (case download_media net audio_url (py ''temp_audio_'' @ filename) w1 of
                  (has_audio, w2) \<Rightarrow>
                    if has_audio \<and> fs w2 (py ''temp_audio_'' @ filename) \<noteq> None then
                      (case merge_video_audio tools (py ''temp_video_'' @ filename)
                              (py ''temp_audio_'' @ filename) filename w2 of
                         (success, w3) \<Rightarrow>
                           (success,
                            remove_if_exists (py ''temp_audio_'' @ filename)
                              (remove_if_exists (py ''temp_video_'' @ filename) w3)))
                    else
                      (fs w2 (py ''temp_video_'' @ filename) \<noteq> None,
                       rename_file (py ''temp_video_'' @ filename) filename w2))))"

fun fetch_all ::
  "web \<Rightarrow> ffmpeg \<Rightarrow> pystr \<Rightarrow> (nat \<times> media_ref) list \<Rightarrow> path list \<Rightarrow> world \<Rightarrow> path list \<times> world" where
  "fetch_all net tools post_id [] media_files w = (media_files, w)"
| "fetch_all net tools post_id ((i, url) # later) media_files w =
     (case download_and_process_media net tools url
             (py ''temp_'' @ post_id @ py ''_'' @ str_of_nat i @ splitext_ext (clean_filename url)) w of
        (ok, w1) \<Rightarrow>
          if ok \<and> (case fs w1 (py ''temp_'' @ post_id @ py ''_'' @ str_of_nat i
                                @ splitext_ext (clean_filename url)) of
                     Some b \<Rightarrow> 0 < length b | None \<Rightarrow> False)
          then fetch_all net tools post_id later
                 (media_files @ [py ''temp_'' @ post_id @ py ''_'' @ str_of_nat i
                                 @ splitext_ext (clean_filename url)]) w1
          else fetch_all net tools post_id later media_files w1)"

definition cleanup :: "path list \<Rightarrow> world \<Rightarrow> world" where
  "cleanup media_files w = fold remove_if_exists media_files w"

definition process_post ::
  "web \<Rightarrow> pil \<Rightarrow> ffmpeg \<Rightarrow> bsky \<Rightarrow> pystr \<Rightarrow> pystr \<Rightarrow> pystr \<Rightarrow> media_ref list \<Rightarrow> pystr list \<Rightarrow> world
     \<Rightarrow> (pystr list \<times> world) option" where
  "process_post net lib tools client post_id title author media_urls posted_ids w =
     (case fetch_all net tools post_id (enumerate 0 media_urls) [] w of
        (media_files, w1) \<Rightarrow>
          if media_files \<noteq> [] then
            (case create_bluesky_thread lib tools client title media_files author w1 of
               None \<Rightarrow> None
             | Some (ok, w2) \<Rightarrow>
                 Some (if ok then posted_ids @ [post_id] else posted_ids, cleanup media_files w2))
          else Some (posted_ids, w1))"

text \<open>
  A post with one GIF: the download succeeds, the conversion succeeds, the client accepts
  the video.
\<close>

definition gif_site :: web where
  "gif_site = \<lparr>http_get = (\<lambda>n u. Response 200 [71, 73, 70]), can_write = (\<lambda>p. True)\<rparr>"

definition gif_tools :: ffmpeg where
  "gif_tools = \<lparr>probe_audio = (\<lambda>v. Some False), probe_duration = (\<lambda>v. Some 2),
                 encode = (\<lambda>v crf rate audio. Some v),
                 gif_to_mp4 = (\<lambda>v. (True, Some [0, 0, 0, 24])),
                 merge_streams = (\<lambda>v a. (True, Some (v @ a)))\<rparr>"

definition gif_url :: pystr where
  "gif_url = py ''https://i.redd.it/x.gif''"

lemma gif_name:
  "py ''temp_'' @ py ''abc'' @ py ''_'' @ str_of_nat 0 @ splitext_ext (clean_filename (Direct gif_url))
     = py ''temp_abc_0.gif''"
  by (simp add: str_of_nat_small splitext_ext_def clean_filename_def basename_def
      last_segment_def gif_url_def py_def)

definition after_download :: world where
  "after_download = \<lparr>fs = [py ''temp_abc_0.gif'' \<mapsto> [71, 73, 70]], trace = [HttpGet (Some gif_url)]\<rparr>"

lemma gif_fetch:
  "fetch_all gif_site tools (py ''abc'') [(0, Direct gif_url)] [] \<lparr>fs = Map.empty, trace = []\<rparr>
     = ([py ''temp_abc_0.gif''], after_download)"
  by (simp add: gif_name download_and_process_media_def download_media_def upt3 gif_site_def
      log_event_def after_download_def)

lemma gif_kinds:
  "image_paths_of [py ''temp_abc_0.gif''] = []"
  "video_paths_of [py ''temp_abc_0.gif''] = [py ''temp_abc_0.gif'']"
  by (simp_all add: image_paths_of_def video_paths_of_def is_image_path_def is_video_path_def
      endswith_def lower_def py_def)

lemma gif_converted:
  "video_file gif_tools (py ''temp_abc_0.gif'') after_download
     = (py ''temp_abc_0.mp4'',
        \<lparr>fs = [py ''temp_abc_0.gif'' \<mapsto> [71, 73, 70], py ''temp_abc_0.mp4'' \<mapsto> [0, 0, 0, 24]]
                (py ''temp_abc_0.gif'' := None),
          trace = [HttpGet (Some gif_url)]\<rparr>)"
  by (simp add: video_file_def endswith_def convert_gif_to_mp4_def Let_def gif_tools_def
      after_download_def slice_to_def remove_file_def py_def)

definition after_convert :: world where
  "after_convert =
     \<lparr>fs = [py ''temp_abc_0.gif'' \<mapsto> [71, 73, 70], py ''temp_abc_0.mp4'' \<mapsto> [0, 0, 0, 24]]
             (py ''temp_abc_0.gif'' := None),
      trace = [HttpGet (Some gif_url)]\<rparr>"

definition gif_video_call :: send_video_call where
  "gif_video_call =
     \<lparr>sv_text = nice_formatted, sv_video = [0, 0, 0, 24], sv_video_alt = nice_text,
      sv_facets = Some nice_facets, sv_reply_to = None\<rparr>"

lemma gif_posted:
  "post_videos gif_tools steady_client nice_formatted nice_facets nice_text [py ''temp_abc_0.gif'']
     \<lparr>root_uri = None, parent_uri = None\<rparr> after_download
   = Some (Inr \<lparr>root_uri = Some (py ''at://bot/post/1''), parent_uri = Some (py ''at://bot/post/1'')\<rparr>,
           after_convert\<lparr>trace := [HttpGet (Some gif_url), SendVideo gif_video_call]\<rparr>)"
  by (simp add: gif_converted after_convert_def [symmetric] del: fun_upd_apply)
     (simp add: after_convert_def verify_file_size_def steady_client_def log_event_def
        send_video_args_def str_of_nat_small posted_def truthy_def gif_video_call_def py_def)

lemma gif_thread:
  "create_bluesky_thread lib gif_tools steady_client (py ''Nice pass!'') [py ''temp_abc_0.gif'']
     (py ''alice'') after_download
   = Some (True, after_convert\<lparr>trace := [HttpGet (Some gif_url), SendVideo gif_video_call]\<rparr>)"
  by (simp add: create_bluesky_thread_def nice_text_def [symmetric] nice_chunks
      nice_formatted_def [symmetric] nice_facets_eq gif_kinds gif_posted batch_starts_def
      del: post_videos.simps)

text \<open>
  C3. Every scratch file of a post is to be gone before the next post is considered,
  the files made by the GIF conversion included. After a post with one GIF was published,
  the GIF is gone, and the converted \<open>temp_abc_0.mp4\<close> is still there: the cleanup only
  knows the names in \<open>media_files\<close>.
\<close>

theorem converted_mp4_left_behind:
  "map_option (\<lambda>r. (fst r, fs (snd r) (py ''temp_abc_0.gif''), fs (snd r) (py ''temp_abc_0.mp4'')))
     (process_post gif_site lib gif_tools steady_client (py ''abc'') (py ''Nice pass!'') (py ''alice'')
        [Direct gif_url] [] \<lparr>fs = Map.empty, trace = []\<rparr>)
   = Some ([py ''abc''], None, Some [0, 0, 0, 24])"
  by (simp add: process_post_def enumerate_eq_zip gif_fetch gif_thread cleanup_def
      remove_if_exists_def after_convert_def del: fetch_all.simps)
     (simp add: py_def)

end
